theory Spec2Isabelle
  imports Main
begin

section \<open>Dual-model stream consumer (useDualModelState.ts)\<close>

text \<open>
  The events of the dual-model stream are tagged objects; \<open>handleEvent\<close> switches on the
  string tag \<open>event.type\<close> and reads the payload fields of the matching case. An event is
  modelled as a record holding the tag and every payload field that \<open>handleEvent\<close> reads;
  the nested objects \<open>event.decision\<close>, \<open>event.plan\<close> and \<open>event.action\<close> are records of
  their own. JavaScript numbers that hold counts and indices are modelled as \<open>int\<close>.
\<close>

record decision_payload =
  dec_action :: string
  dec_target :: string

record plan_payload =
  steps :: "string list"
  estimated_actions :: int

record action_payload =
  act_action :: string
  act_target :: string

record DualModelStreamEvent =
  ev_type :: string
  ev_stage :: string
  ev_chunk :: string
  ev_decision :: decision_payload
  ev_plan :: plan_payload
  ev_description :: string
  ev_action :: action_payload
  ev_action_type :: string
  ev_target :: string
  ev_success :: bool
  ev_step :: int
  ev_message :: string

record DualModelState =
  decisionActive :: bool
  decisionStage :: string
  decisionThinking :: string
  decisionResult :: string
  taskPlan :: "string list"
  visionActive :: bool
  visionStage :: string
  visionDescription :: string
  visionAction :: string
  currentStep :: int
  totalSteps :: int
  decisions :: "DualModelStreamEvent list"
  recognitions :: "DualModelStreamEvent list"
  actions :: "DualModelStreamEvent list"

text \<open>The value given to \<open>React.useState\<close> (and restored by \<open>reset\<close>).\<close>

definition initial_state :: DualModelState where
  "initial_state =
     \<lparr> decisionActive = False, decisionStage = ''idle'', decisionThinking = '''',
       decisionResult = '''', taskPlan = [],
       visionActive = False, visionStage = ''idle'', visionDescription = '''',
       visionAction = '''',
       currentStep = 0, totalSteps = 0,
       decisions = [], recognitions = [], actions = [] \<rparr>"

text \<open>
  The state updater passed to \<open>setState\<close> inside \<open>handleEvent\<close>: one branch per \<open>case\<close>
  label, in the order of the source, and the \<open>default\<close> branch last.
\<close>

definition handleEvent :: "DualModelState \<Rightarrow> DualModelStreamEvent \<Rightarrow> DualModelState" where
  "handleEvent prev event =
    (if ev_type event = ''decision_start'' then
       prev\<lparr> decisionActive := True, decisionStage := ev_stage event, visionActive := False \<rparr>
     else if ev_type event = ''decision_thinking'' then
       prev\<lparr> decisionThinking := decisionThinking prev @ ev_chunk event \<rparr>
     else if ev_type event = ''decision_result'' then
       prev\<lparr> decisionActive := False, decisionStage := ''idle'', decisionThinking := '''',
             decisionResult :=
               dec_action (ev_decision event) @ '': '' @ dec_target (ev_decision event),
             decisions := decisions prev @ [event] \<rparr>
     else if ev_type event = ''task_plan'' then
       prev\<lparr> taskPlan := steps (ev_plan event),
             totalSteps := estimated_actions (ev_plan event) \<rparr>
     else if ev_type event = ''vision_start'' then
       prev\<lparr> visionActive := True, visionStage := ev_stage event, decisionActive := False \<rparr>
     else if ev_type event = ''vision_recognition'' then
       prev\<lparr> visionDescription := ev_description event,
             recognitions := recognitions prev @ [event] \<rparr>
     else if ev_type event = ''action_start'' then
       prev\<lparr> visionStage := ''executing'',
             visionAction :=
               act_action (ev_action event) @ '': '' @ act_target (ev_action event) \<rparr>
     else if ev_type event = ''action_result'' then
       prev\<lparr> visionActive := False, visionStage := ''idle'',
             visionAction :=
               ev_action_type event @ '': '' @ ev_target event @ '' - '' @
               (if ev_success event then ''Success'' else ''Failed''),
             actions := actions prev @ [event] \<rparr>
     else if ev_type event = ''step_complete'' then
       prev\<lparr> currentStep := ev_step event \<rparr>
     else if ev_type event = ''task_complete'' then
       prev\<lparr> decisionActive := False, visionActive := False,
             decisionStage := ''idle'', visionStage := ''idle'' \<rparr>
     else if ev_type event = ''error'' \<or> ev_type event = ''aborted'' then
       prev\<lparr> decisionActive := False, visionActive := False,
             decisionStage := ''idle'', visionStage := ''idle'' \<rparr>
     else prev)"

text \<open>The \<open>case\<close> labels of the switch, in source order.\<close>

definition handled_kinds :: "string list" where
  "handled_kinds =
     [''decision_start'', ''decision_thinking'', ''decision_result'', ''task_plan'',
      ''vision_start'', ''vision_recognition'', ''action_start'', ''action_result'',
      ''step_complete'', ''task_complete'', ''error'', ''aborted'']"

text \<open>The twelve kinds as the specification's event taxonomy names them.\<close>

definition spec_kinds :: "string list" where
  "spec_kinds =
     [''plan'', ''decision_start'', ''decision_thinking'', ''decision_result'',
      ''vision_start'', ''vision_recognition'', ''action_start'', ''action_result'',
      ''step_complete'', ''task_complete'', ''error'', ''aborted'']"

text \<open>Feeding a whole stream to the consumer: React applies the updaters in order.\<close>

definition handleEvents :: "DualModelState \<Rightarrow> DualModelStreamEvent list \<Rightarrow> DualModelState" where
  "handleEvents s es = foldl handleEvent s es"

text \<open>An event with the given tag and empty payload, used to build concrete inputs.\<close>

definition blank_event :: "string \<Rightarrow> DualModelStreamEvent" where
  "blank_event t =
     \<lparr> ev_type = t, ev_stage = '''', ev_chunk = '''',
       ev_decision = \<lparr> dec_action = '''', dec_target = '''' \<rparr>,
       ev_plan = \<lparr> steps = [], estimated_actions = 0 \<rparr>,
       ev_description = '''',
       ev_action = \<lparr> act_action = '''', act_target = '''' \<rparr>,
       ev_action_type = '''', ev_target = '''', ev_success = False,
       ev_step = 0, ev_message = '''' \<rparr>"



section \<open>Task history in localStorage (utils/history.ts)\<close>



record HistoryItem =
  hi_id :: string
  hi_deviceId :: string
  hi_deviceName :: string
  hi_taskText :: string
  hi_success :: bool
  hi_steps :: int
  hi_startTime :: nat
  hi_endTime :: nat
  hi_duration :: int
  hi_thinking :: "string list"
  hi_actions :: "string list"
  hi_finalMessage :: string
  hi_errorMessage :: "string option"

definition MAX_HISTORY_ITEMS :: nat where
  "MAX_HISTORY_ITEMS = 100"

definition FALLBACK_HISTORY_ITEMS :: nat where
  "FALLBACK_HISTORY_ITEMS = 20"





text \<open>
  What a key of localStorage holds, as \<open>saveHistoryItem\<close> sees it: the text of a JSON
  array (written by an earlier save), the empty string (falsy, read as no history), or
  anything else, on which \<open>JSON.parse\<close> or \<open>history.unshift\<close> throws. A missing key makes
  \<open>getItem\<close> return \<open>null\<close>. Serialising and parsing an item is the identity of the model.
\<close>

datatype stored_value = JsonArray "HistoryItem list" | EmptyString | NotAnArray

type_synonym storage = "string \<Rightarrow> stored_value option"

text \<open>What \<open>localStorage.setItem\<close> does with a value: store it, or throw.\<close>

datatype set_outcome = Stored | QuotaExceededError | OtherError

datatype console_line = WarnQuotaExceeded | ErrorRetryFailed | WarnSaveFailed

text \<open>
  \<open>stored ? JSON.parse(stored) : []\<close>, with \<open>None\<close> for the exception that leaves the
  \<open>try\<close> block.
\<close>

definition readHistory :: "storage \<Rightarrow> string \<Rightarrow> HistoryItem list option" where
  "readHistory ls key =
     (case ls key of
        None \<Rightarrow> Some []
      | Some EmptyString \<Rightarrow> Some []
      | Some (JsonArray xs) \<Rightarrow> Some xs
      | Some NotAnArray \<Rightarrow> None)"

text \<open>
  \<open>saveHistoryItem\<close>. The parameter \<open>setItem\<close> tells, for the key and the list to be
  written, whether the browser stores it or throws. The result is the new localStorage
  and the lines written to the console.
\<close>

definition saveHistoryItem ::
  "(string \<Rightarrow> HistoryItem list \<Rightarrow> set_outcome) \<Rightarrow> storage \<Rightarrow> string \<Rightarrow> HistoryItem
     \<Rightarrow> storage \<times> console_line list" where
  "saveHistoryItem setItem ls deviceId item =
     (let key = ''history-'' @ deviceId in
      case readHistory ls key of
        None \<Rightarrow> (ls, [WarnSaveFailed])
      | Some history \<Rightarrow>
          (let limited = take MAX_HISTORY_ITEMS (item # history) in
           case setItem key limited of
             Stored \<Rightarrow> (ls(key \<mapsto> JsonArray limited), [])
           | OtherError \<Rightarrow> (ls, [WarnSaveFailed])
           | QuotaExceededError \<Rightarrow>
               (case readHistory ls key of
                  None \<Rightarrow> (ls, [WarnQuotaExceeded, ErrorRetryFailed])
                | Some history2 \<Rightarrow>
                    (let reduced = item # take FALLBACK_HISTORY_ITEMS history2 in
                     case setItem key reduced of
                       Stored \<Rightarrow> (ls(key \<mapsto> JsonArray reduced), [WarnQuotaExceeded])
                     | QuotaExceededError \<Rightarrow> (ls, [WarnQuotaExceeded, ErrorRetryFailed])
                     | OtherError \<Rightarrow> (ls, [WarnQuotaExceeded, ErrorRetryFailed])))))"

text \<open>A history item with the given id and task, used to build concrete inputs.\<close>

definition sample_item :: "string \<Rightarrow> string \<Rightarrow> HistoryItem" where
  "sample_item i task =
     \<lparr> hi_id = i, hi_deviceId = ''dev1'', hi_deviceName = ''Phone'', hi_taskText = task,
       hi_success = True, hi_steps = 1, hi_startTime = 1000, hi_endTime = 2000,
       hi_duration = 1000, hi_thinking = [], hi_actions = [],
       hi_finalMessage = ''ok'', hi_errorMessage = None \<rparr>"


section \<open>Chat panel of one device (DevicePanel.tsx)\<close>

text \<open>
  The panel's React state and refs that the send and abort handlers touch, the requests
  they issue to the backend, and localStorage. Every handler runs to completion before the
  next one starts; a handler reads the state of the latest render.
\<close>

datatype api_call =
    InitAgent string bool
  | SendMessageStream string string
  | CloseStream nat
  | AbortChat string
  | ResetChat string



record DeviceProps =
  deviceId :: string
  deviceSerial :: string
  deviceName :: string




















section \<open>Anomaly monitor (backend)\<close>

text \<open>
  The counters of one task run, as the development log declares the dataclass
  \<open>AnomalyState\<close>: all zero or empty at task start.
\<close>

record AnomalyState =
  consecutive_failures :: nat
  consecutive_same_screen :: nat
  last_screenshot_hash :: string
  last_action :: string
  repeated_actions :: nat

definition initial_anomaly_state :: AnomalyState where
  "initial_anomaly_state =
     \<lparr> consecutive_failures = 0, consecutive_same_screen = 0, last_screenshot_hash = [],
       last_action = [], repeated_actions = 0 \<rparr>"

text \<open>
  Modelled from the spec: the thresholds N, M and K of the three rules of the anomaly
  monitor, whose code (\<^verbatim>\<open>dual_agent.py\<close>) is not among the sources; the defaults are 3, 2
  and 3.
\<close>

record AnomalyConfig =
  sameScreenThreshold :: nat
  failureThreshold :: nat
  repeatThreshold :: nat

definition default_config :: AnomalyConfig where
  "default_config = \<lparr> sameScreenThreshold = 3, failureThreshold = 2, repeatThreshold = 3 \<rparr>"

record Observation =
  screenFingerprint :: string
  actionSignature :: string
  outcomeSuccess :: bool

datatype AnomalyContext =
    ScreenNotChanging nat
  | ConsecutiveFailures nat
  | ActionHasNoEffect nat string

text \<open>
  Modelled from the spec: \<open>observe(screenFingerprint, actionSignature, outcomeSuccess)\<close>
  of the anomaly monitor, whose code (\<^verbatim>\<open>dual_agent.py\<close>) is not among the sources. A counter
  grows by one when its condition holds for the new observation (the fingerprint equals
  the last one; the outcome is a failure; the action signature equals the last one while
  the fingerprint has not changed) and is reset otherwise. The rules are then tried in
  the order same screen, consecutive failures, repeated action, and the first whose
  counter has reached its threshold gives the anomaly.
\<close>

definition observe ::
  "AnomalyConfig \<Rightarrow> AnomalyState \<Rightarrow> Observation \<Rightarrow> AnomalyState \<times> AnomalyContext option" where
  "observe cfg st ob =
     (let same = (if screenFingerprint ob = last_screenshot_hash st
                  then consecutive_same_screen st + 1 else 0);
          fails = (if outcomeSuccess ob then 0 else consecutive_failures st + 1);
          rep = (if actionSignature ob = last_action st
                    \<and> screenFingerprint ob = last_screenshot_hash st
                 then repeated_actions st + 1 else 0);
          st' = \<lparr> consecutive_failures = fails, consecutive_same_screen = same,
                  last_screenshot_hash = screenFingerprint ob,
                  last_action = actionSignature ob, repeated_actions = rep \<rparr>
      in (st',
          if sameScreenThreshold cfg \<le> same then Some (ScreenNotChanging same)
          else if failureThreshold cfg \<le> fails then Some (ConsecutiveFailures fails)
          else if repeatThreshold cfg \<le> rep
          then Some (ActionHasNoEffect rep (actionSignature ob))
          else None))"

text \<open>The state of the monitor after a sequence of observations, oldest first.\<close>

definition monitor_run :: "AnomalyConfig \<Rightarrow> Observation list \<Rightarrow> AnomalyState" where
  "monitor_run cfg obs = foldl (\<lambda>st ob. fst (observe cfg st ob)) initial_anomaly_state obs"

text \<open>
  The streaks of an observation sequence, stated on the sequence itself and not on the
  counters. \<open>leading_pairs R xs\<close> counts the adjacent pairs at the front of \<open>xs\<close> that
  satisfy \<open>R\<close>; on the reversed sequence these are the most recent observations. The
  sequence is preceded by the empty observation that the initial state stands for.
\<close>

fun leading_pairs :: "('a \<Rightarrow> 'a \<Rightarrow> bool) \<Rightarrow> 'a list \<Rightarrow> nat" where
  "leading_pairs R (x # y # zs) = (if R x y then Suc (leading_pairs R (y # zs)) else 0)"
| "leading_pairs R zs = 0"

definition blank_observation :: Observation where
  "blank_observation = \<lparr> screenFingerprint = [], actionSignature = [], outcomeSuccess = True \<rparr>"

definition same_screen_streak :: "Observation list \<Rightarrow> nat" where
  "same_screen_streak obs =
     leading_pairs (\<lambda>a b. screenFingerprint a = screenFingerprint b)
       (rev (blank_observation # obs))"

definition failure_streak :: "Observation list \<Rightarrow> nat" where
  "failure_streak obs = length (takeWhile (\<lambda>ob. \<not> outcomeSuccess ob) (rev obs))"

definition repeat_streak :: "Observation list \<Rightarrow> nat" where
  "repeat_streak obs =
     leading_pairs
       (\<lambda>a b. actionSignature a = actionSignature b \<and> screenFingerprint a = screenFingerprint b)
       (rev (blank_observation # obs))"


section \<open>Batched execution strategy (backend)\<close>

record ActionStep =
  step_action :: string
  step_target :: string
  step_content :: "string option"
  needsGeneration :: bool

record ActionSequence =
  seq_steps :: "ActionStep list"
  seq_summary :: string
  humanizeSteps :: "nat list"

datatype run_status = Running | Done | Failed string | Cancelled

datatype orch_event =
    EvPlan string nat
  | EvActionStart string string
  | EvActionResult string string bool
  | EvStepComplete nat
  | EvTaskComplete
  | EvError string
  | EvAborted string

record BatchedRun =
  activeSequence :: ActionSequence
  currentIndex :: nat
  replanBudget :: int
  replansUsed :: nat
  anomalyState :: AnomalyState
  executedSteps :: "ActionStep list"
  emitted :: "orch_event list"
  status :: run_status

text \<open>
  What the collaborators answer during one step: whether cancellation has been requested,
  the text \<open>humanize\<close> returns, the fingerprint of the screen after the action, the success
  flag of the outcome, and the sequence \<open>replan\<close> returns if it is asked.
\<close>

record StepEnv =
  cancelRequested :: bool
  generatedContent :: string
  screenAfter :: string
  succeeded :: bool
  replanResult :: ActionSequence

text \<open>
  Modelled from the spec: the fixed maximum of the re-plan budget; the development log
  says the same (at most three re-plans).
\<close>

definition MAX_REPLANS :: int where
  "MAX_REPLANS = 3"

text \<open>
  Modelled from the spec: the start of a Batched run, after \<open>planBatch\<close> has returned the
  sequence; the orchestrator (\<^verbatim>\<open>dual_agent.py\<close>) is not among the sources. The index is 0 and
  the budget is full.
\<close>

definition start_batched :: "ActionSequence \<Rightarrow> BatchedRun" where
  "start_batched plan =
     \<lparr> activeSequence = plan, currentIndex = 0, replanBudget = MAX_REPLANS, replansUsed = 0,
       anomalyState = initial_anomaly_state, executedSteps = [],
       emitted = [EvPlan (seq_summary plan) (length (seq_steps plan))], status = Running \<rparr>"

text \<open>
  Modelled from the spec: one turn of the Batched strategy of the orchestrator
  (\<^verbatim>\<open>dual_agent.py\<close>, not among the sources). A run that has ended stays as it is. With all
  steps consumed the run emits \<open>task_complete\<close>. Cancellation is checked before the calls of
  the step. Otherwise the step is executed (its content generated first when flagged), the
  outcome goes to the anomaly monitor, and on an anomaly the run either spends one unit of
  the budget and replaces the sequence from the failure point on, or, with the budget at
  zero, ends with the error "recovery exhausted".
\<close>

definition batched_step :: "AnomalyConfig \<Rightarrow> BatchedRun \<Rightarrow> StepEnv \<Rightarrow> BatchedRun" where
  "batched_step cfg r env =
     (if status r \<noteq> Running then r
      else if length (seq_steps (activeSequence r)) \<le> currentIndex r then
        r\<lparr> emitted := emitted r @ [EvTaskComplete], status := Done \<rparr>
      else if cancelRequested env then
        r\<lparr> emitted := emitted r @ [EvAborted ''aborted''], status := Cancelled \<rparr>
      else
        (let st = seq_steps (activeSequence r) ! currentIndex r;
             done_step = (if needsGeneration st
                          then st\<lparr> step_content := Some (generatedContent env) \<rparr> else st);
             ob = \<lparr> screenFingerprint = screenAfter env,
                    actionSignature = step_action st @ '':'' @ step_target st,
                    outcomeSuccess = succeeded env \<rparr>;
             res = observe cfg (anomalyState r) ob;
             r1 = r\<lparr> emitted := emitted r @
                        [EvActionStart (step_action st) (step_target st),
                         EvActionResult (step_action st) (step_target st) (succeeded env)],
                     anomalyState := fst res \<rparr>
         in case snd res of
              None \<Rightarrow>
                r1\<lparr> currentIndex := currentIndex r1 + 1,
                    executedSteps := executedSteps r1 @ [done_step],
                    emitted := emitted r1 @ [EvStepComplete (currentIndex r1)] \<rparr>
            | Some ctx \<Rightarrow>
                (if 0 < replanBudget r1 then
                   r1\<lparr> replanBudget := replanBudget r1 - 1,
                       replansUsed := replansUsed r1 + 1,
                       activeSequence :=
                         (replanResult env)\<lparr> seq_steps :=
                            take (currentIndex r1) (seq_steps (activeSequence r1))
                            @ seq_steps (replanResult env) \<rparr> \<rparr>
                 else
                   r1\<lparr> emitted := emitted r1 @ [EvError ''recovery exhausted''],
                       status := Failed ''recovery exhausted'' \<rparr>)))"

text \<open>A Batched run driven through a sequence of turns.\<close>

definition batched_run :: "AnomalyConfig \<Rightarrow> ActionSequence \<Rightarrow> StepEnv list \<Rightarrow> BatchedRun" where
  "batched_run cfg plan envs = foldl (batched_step cfg) (start_batched plan) envs"

text \<open>The budget never goes below zero, and budget and re-plans used add up to the maximum.\<close>

definition budget_inv :: "BatchedRun \<Rightarrow> bool" where
  "budget_inv r = (0 \<le> replanBudget r \<and> replanBudget r + int (replansUsed r) = MAX_REPLANS)"

text \<open>A two-step plan and a turn in which the action fails, for concrete runs.\<close>

definition sample_plan :: ActionSequence where
  "sample_plan =
     \<lparr> seq_steps =
         [\<lparr> step_action = ''launch'', step_target = ''app'', step_content = None,
            needsGeneration = False \<rparr>,
          \<lparr> step_action = ''tap'', step_target = ''search'', step_content = None,
            needsGeneration = False \<rparr>],
       seq_summary = ''open app'', humanizeSteps = [] \<rparr>"

definition failing_env :: StepEnv where
  "failing_env =
     \<lparr> cancelRequested = False, generatedContent = [], screenAfter = ''s1'',
       succeeded = False,
       replanResult =
         \<lparr> seq_steps =
             [\<lparr> step_action = ''tap'', step_target = ''ok'', step_content = None,
                needsGeneration = False \<rparr>],
           seq_summary = ''retry'', humanizeSteps = [] \<rparr> \<rparr>"


section \<open>Properties of the stream consumer\<close>

lemma handleEvent_unhandled:
  "ev_type e \<notin> set handled_kinds \<Longrightarrow> handleEvent s e = s"
  by (simp add: handleEvent_def handled_kinds_def)

lemma handled_kind_changes_state:
  assumes t: "t \<in> set handled_kinds"
  shows "\<exists>s e. ev_type e = t \<and> handleEvent s e \<noteq> s"
proof -
  let ?s = "initial_state\<lparr> decisionActive := True, decisionStage := ''x'' \<rparr>"
  let ?e = "(blank_event t)\<lparr> ev_stage := ''y'', ev_chunk := ''c'', ev_description := ''d'',
       ev_step := 1, ev_plan := \<lparr> steps = [''a''], estimated_actions = 1 \<rparr> \<rparr>"
  have "ev_type ?e = t" by (simp add: blank_event_def)
  moreover have "handleEvent ?s ?e \<noteq> ?s"
    using t by (auto simp add: handled_kinds_def handleEvent_def blank_event_def initial_state_def)
  ultimately show ?thesis by blast
qed

text \<open>
  Claim C1, as amended. The kinds that \<open>handleEvent\<close> recognizes (those for which some
  event of the kind changes some state) are exactly its twelve case labels: the kinds of
  the specification's taxonomy with \<open>task_plan\<close> in the place of \<open>plan\<close>. The plan event,
  tagged \<open>task_plan\<close>, carries \<open>plan.steps\<close> and \<open>plan.estimated_actions\<close>, which become
  \<open>taskPlan\<close> and \<open>totalSteps\<close>.
\<close>

theorem handleEvent_recognized_kinds:
  "(t \<in> set handled_kinds \<longleftrightarrow> (\<exists>s e. ev_type e = t \<and> handleEvent s e \<noteq> s))
   \<and> distinct handled_kinds \<and> length handled_kinds = 12
   \<and> set handled_kinds = insert ''task_plan'' (set spec_kinds - {''plan''})
   \<and> taskPlan (handleEvent s (e\<lparr> ev_type := ''task_plan'' \<rparr>)) = steps (ev_plan e)
   \<and> totalSteps (handleEvent s (e\<lparr> ev_type := ''task_plan'' \<rparr>)) = estimated_actions (ev_plan e)"
proof -
  have a: "t \<in> set handled_kinds \<longleftrightarrow> (\<exists>s e. ev_type e = t \<and> handleEvent s e \<noteq> s)"
    using handled_kind_changes_state handleEvent_unhandled by blast
  have b: "distinct handled_kinds" by (simp add: handled_kinds_def)
  have c: "length handled_kinds = 12" by (simp add: handled_kinds_def)
  have d: "set handled_kinds = insert ''task_plan'' (set spec_kinds - {''plan''})"
    by (auto simp add: handled_kinds_def spec_kinds_def)
  have e: "taskPlan (handleEvent s (e\<lparr> ev_type := ''task_plan'' \<rparr>)) = steps (ev_plan e)"
    by (simp add: handleEvent_def)
  have f: "totalSteps (handleEvent s (e\<lparr> ev_type := ''task_plan'' \<rparr>))
             = estimated_actions (ev_plan e)"
    by (simp add: handleEvent_def)
  from a b c d e f show ?thesis by blast
qed

text \<open>
  Claim C1 as stated fails: an event of the kind \<open>plan\<close>, carrying steps and an estimate,
  is not recognized; it leaves the state as it was.
\<close>

theorem plan_kind_not_recognized:
  "''plan'' \<in> set spec_kinds \<and>
   handleEvent initial_state
     ((blank_event ''plan'')\<lparr> ev_plan := \<lparr> steps = [''open app''], estimated_actions = 2 \<rparr> \<rparr>)
   = initial_state"
  by (simp add: spec_kinds_def handleEvent_def blank_event_def)






lemma flags_step:
  "\<not> (decisionActive s \<and> visionActive s) \<Longrightarrow>
   \<not> (decisionActive (handleEvent s e) \<and> visionActive (handleEvent s e))"
  by (simp add: handleEvent_def)

lemma flags_run:
  "\<not> (decisionActive s \<and> visionActive s) \<Longrightarrow>
   \<not> (decisionActive (handleEvents s es) \<and> visionActive (handleEvents s es))"
  unfolding handleEvents_def
  by (induction es arbitrary: s) (simp_all add: flags_step del: de_Morgan_conj)

text \<open>
  Claim C8. From the initial state, after any sequence of events, \<open>decisionActive\<close> and
  \<open>visionActive\<close> are not both true. \<open>decision_start\<close> sets the decision flag and clears the
  vision flag, \<open>vision_start\<close> does the converse, and no other kind turns a flag on.
\<close>

theorem active_flags_exclusive:
  "\<not> (decisionActive (handleEvents initial_state es) \<and> visionActive (handleEvents initial_state es))
   \<and> (ev_type e = ''decision_start'' \<longrightarrow>
        decisionActive (handleEvent s e) \<and> \<not> visionActive (handleEvent s e))
   \<and> (ev_type e = ''vision_start'' \<longrightarrow>
        visionActive (handleEvent s e) \<and> \<not> decisionActive (handleEvent s e))
   \<and> (ev_type e \<noteq> ''decision_start'' \<longrightarrow> decisionActive (handleEvent s e) \<longrightarrow> decisionActive s)
   \<and> (ev_type e \<noteq> ''vision_start'' \<longrightarrow> visionActive (handleEvent s e) \<longrightarrow> visionActive s)"
proof -
  have "\<not> (decisionActive initial_state \<and> visionActive initial_state)"
    by (simp add: initial_state_def)
  then have inv: "\<not> (decisionActive (handleEvents initial_state es)
                     \<and> visionActive (handleEvents initial_state es))"
    by (rule flags_run)
  have rest: "(ev_type e = ''decision_start'' \<longrightarrow>
        decisionActive (handleEvent s e) \<and> \<not> visionActive (handleEvent s e))
   \<and> (ev_type e = ''vision_start'' \<longrightarrow>
        visionActive (handleEvent s e) \<and> \<not> decisionActive (handleEvent s e))
   \<and> (ev_type e \<noteq> ''decision_start'' \<longrightarrow> decisionActive (handleEvent s e) \<longrightarrow> decisionActive s)
   \<and> (ev_type e \<noteq> ''vision_start'' \<longrightarrow> visionActive (handleEvent s e) \<longrightarrow> visionActive s)"
    by (simp add: handleEvent_def)
  from inv rest show ?thesis by blast
qed

theorem active_flags_exclusive_witness:
  "decisionActive (handleEvent initial_state (blank_event ''decision_start''))
   \<and> \<not> visionActive (handleEvent initial_state (blank_event ''decision_start''))
   \<and> visionActive (handleEvent (handleEvent initial_state (blank_event ''decision_start''))
                     (blank_event ''vision_start''))
   \<and> \<not> decisionActive (handleEvent (handleEvent initial_state (blank_event ''decision_start''))
                         (blank_event ''vision_start''))
   \<and> decisionActive (handleEvent (handleEvent initial_state (blank_event ''decision_start''))
                       (blank_event ''vision_recognition''))
   \<and> visionActive (handleEvent (handleEvent initial_state (blank_event ''vision_start''))
                     (blank_event ''decision_thinking''))
   \<and> \<not> (decisionActive (handleEvents initial_state
                          [blank_event ''decision_start'', blank_event ''vision_start''])
        \<and> visionActive (handleEvents initial_state
                          [blank_event ''decision_start'', blank_event ''vision_start'']))"
proof -
  let ?d = "blank_event ''decision_start''"
  let ?v = "blank_event ''vision_start''"
  have t: "ev_type ?d = ''decision_start''" "ev_type ?v = ''vision_start''"
    "ev_type (blank_event ''vision_recognition'') \<noteq> ''decision_start''"
    "ev_type (blank_event ''decision_thinking'') \<noteq> ''vision_start''"
    by (simp_all add: blank_event_def)
  have k: "decisionActive (handleEvent (handleEvent initial_state ?d) (blank_event ''vision_recognition''))"
    "visionActive (handleEvent (handleEvent initial_state ?v) (blank_event ''decision_thinking''))"
    by (simp_all add: handleEvent_def blank_event_def)
  from t k
    active_flags_exclusive [of "[?d, ?v]" ?d initial_state]
    active_flags_exclusive [of "[]" ?v "handleEvent initial_state ?d"]
    active_flags_exclusive [of "[]" "blank_event ''vision_recognition''" "handleEvent initial_state ?d"]
    active_flags_exclusive [of "[]" "blank_event ''decision_thinking''" "handleEvent initial_state ?v"]
  show ?thesis by blast
qed

text \<open>
  Claim C9. An event whose type is none of the twelve case labels takes the \<open>default\<close>
  branch: \<open>handleEvent\<close> returns the previous state, every field as it was, and so does a
  whole sequence of such events.
\<close>

theorem unknown_kind_keeps_state:
  assumes "\<forall>e\<in>set (e0 # es). ev_type e \<notin> set handled_kinds"
  shows "handleEvent s e0 = s \<and> handleEvents s (e0 # es) = s"
proof -
  have "\<forall>e\<in>set xs. ev_type e \<notin> set handled_kinds \<Longrightarrow> foldl handleEvent s xs = s" for xs
    by (induction xs) (simp_all add: handleEvent_unhandled)
  from this [of "e0 # es"] assms show ?thesis
    by (simp add: handleEvents_def handleEvent_unhandled)
qed

theorem unknown_kind_keeps_state_witness:
  "handleEvent (handleEvent initial_state (blank_event ''decision_start'')) (blank_event ''heartbeat'')
     = handleEvent initial_state (blank_event ''decision_start'')
   \<and> handleEvents (handleEvent initial_state (blank_event ''decision_start''))
       [blank_event ''heartbeat'', blank_event ''Task_Complete'']
     = handleEvent initial_state (blank_event ''decision_start'')"
proof -
  have h: "\<forall>e\<in>set (blank_event ''heartbeat'' # [blank_event ''Task_Complete'']).
             ev_type e \<notin> set handled_kinds"
    by (simp add: blank_event_def handled_kinds_def)
  from unknown_kind_keeps_state [OF h] show ?thesis by simp
qed


section \<open>Properties of the chat panel\<close>














section \<open>Properties of the task history\<close>

text \<open>
  Claim C10. Let the stored history of the device be readable. When the first
  \<open>setItem\<close> succeeds, the stored list is the new item followed by the old ones, cut at
  100: it begins with the new item and has at most 100 entries. When the first \<open>setItem\<close>
  throws \<open>QuotaExceededError\<close>, the only list written is the new item followed by the first
  20 old ones, at most 21 entries; if that write fails too, localStorage is unchanged.
\<close>

theorem saveHistoryItem_bounds:
  assumes rd: "readHistory ls (''history-'' @ d) = Some h"
  shows "(setItem (''history-'' @ d) (take 100 (item # h)) = Stored \<longrightarrow>
           fst (saveHistoryItem setItem ls d item) (''history-'' @ d)
             = Some (JsonArray (take 100 (item # h)))
           \<and> hd (take 100 (item # h)) = item
           \<and> take 100 (item # h) \<noteq> []
           \<and> length (take 100 (item # h)) \<le> 100)
       \<and> (setItem (''history-'' @ d) (take 100 (item # h)) = QuotaExceededError \<longrightarrow>
           (setItem (''history-'' @ d) (item # take 20 h) = Stored \<longrightarrow>
              fst (saveHistoryItem setItem ls d item) (''history-'' @ d)
                = Some (JsonArray (item # take 20 h)))
           \<and> (setItem (''history-'' @ d) (item # take 20 h) \<noteq> Stored \<longrightarrow>
              fst (saveHistoryItem setItem ls d item) = ls)
           \<and> hd (item # take 20 h) = item
           \<and> length (item # take 20 h) \<le> 21)"
  using rd
  by (auto simp add: saveHistoryItem_def Let_def MAX_HISTORY_ITEMS_def FALLBACK_HISTORY_ITEMS_def
      split: set_outcome.splits)

theorem saveHistoryItem_bounds_witness:
  "fst (saveHistoryItem (\<lambda>key items. Stored)
          (Map.empty(''history-SER1'' \<mapsto> JsonArray [sample_item ''1'' ''old task'']))
          ''SER1'' (sample_item ''2'' ''new task'')) ''history-SER1''
     = Some (JsonArray [sample_item ''2'' ''new task'', sample_item ''1'' ''old task''])
   \<and> fst (saveHistoryItem (\<lambda>key items. if length items \<le> 2 then Stored else QuotaExceededError)
          (Map.empty(''history-SER1'' \<mapsto>
             JsonArray (sample_item ''1'' ''old task'' # replicate 30 (sample_item ''0'' ''older''))))
          ''SER1'' (sample_item ''2'' ''new task'')) ''history-SER1''
     = Some (JsonArray (sample_item ''1'' ''old task'' # replicate 30 (sample_item ''0'' ''older'')))
   \<and> fst (saveHistoryItem (\<lambda>key items. if length items \<le> 21 then Stored else QuotaExceededError)
          (Map.empty(''history-SER1'' \<mapsto>
             JsonArray (sample_item ''1'' ''old task'' # replicate 30 (sample_item ''0'' ''older''))))
          ''SER1'' (sample_item ''2'' ''new task'')) ''history-SER1''
     = Some (JsonArray (sample_item ''2'' ''new task'' # sample_item ''1'' ''old task''
                          # replicate 19 (sample_item ''0'' ''older'')))"
proof -
  let ?new = "sample_item ''2'' ''new task''"
  let ?old = "sample_item ''1'' ''old task''"
  let ?h = "?old # replicate 30 (sample_item ''0'' ''older'')"
  let ?ls1 = "Map.empty(''history-SER1'' \<mapsto> JsonArray [?old])"
  let ?ls2 = "Map.empty(''history-SER1'' \<mapsto> JsonArray ?h)"
  let ?q2 = "\<lambda>(key::string) (items::HistoryItem list).
               if length items \<le> 2 then Stored else QuotaExceededError"
  let ?q21 = "\<lambda>(key::string) (items::HistoryItem list).
               if length items \<le> 21 then Stored else QuotaExceededError"
  have r1: "readHistory ?ls1 (''history-'' @ ''SER1'') = Some [?old]"
    by (simp add: readHistory_def)
  have r2: "readHistory ?ls2 (''history-'' @ ''SER1'') = Some ?h"
    by (simp add: readHistory_def)
  have t20: "take 20 ?h = ?old # replicate 19 (sample_item ''0'' ''older'')"
    by (simp add: take_Cons' min_def)
  have a: "fst (saveHistoryItem (\<lambda>key items. Stored) ?ls1 ''SER1'' ?new) ''history-SER1''
             = Some (JsonArray [?new, ?old])"
    using saveHistoryItem_bounds [OF r1, of "\<lambda>key items. Stored" ?new] by simp
  have b: "fst (saveHistoryItem ?q2 ?ls2 ''SER1'' ?new) = ?ls2"
    using saveHistoryItem_bounds [OF r2, of ?q2 ?new] by simp
  have c: "fst (saveHistoryItem ?q21 ?ls2 ''SER1'' ?new) ''history-SER1''
             = Some (JsonArray (?new # take 20 ?h))"
    using saveHistoryItem_bounds [OF r2, of ?q21 ?new] by simp
  from a b c t20 show ?thesis by simp
qed


section \<open>Properties of the anomaly monitor\<close>

lemma monitor_run_snoc:
  "monitor_run cfg (obs @ [ob]) = fst (observe cfg (monitor_run cfg obs) ob)"
  by (simp add: monitor_run_def)

lemma leading_pairs_cons:
  "ys \<noteq> [] \<Longrightarrow>
   leading_pairs R (x # ys) = (if R x (hd ys) then Suc (leading_pairs R ys) else 0)"
  by (cases ys) simp_all

lemma leading_pairs_snoc:
  "leading_pairs R (rev (b # obs @ [ob])) =
     (if R ob (last (b # obs)) then Suc (leading_pairs R (rev (b # obs))) else 0)"
proof -
  have "rev (b # obs @ [ob]) = ob # rev (b # obs)" by simp
  moreover have "rev (b # obs) \<noteq> []" by simp
  moreover have "hd (rev (b # obs)) = last (b # obs)" by (rule hd_rev)
  ultimately show ?thesis using leading_pairs_cons [of "rev (b # obs)" R ob] by simp
qed

lemma same_screen_streak_snoc:
  "same_screen_streak (obs @ [ob]) =
     (if screenFingerprint ob = screenFingerprint (last (blank_observation # obs))
      then Suc (same_screen_streak obs) else 0)"
  unfolding same_screen_streak_def by (rule leading_pairs_snoc)

lemma repeat_streak_snoc:
  "repeat_streak (obs @ [ob]) =
     (if actionSignature ob = actionSignature (last (blank_observation # obs))
         \<and> screenFingerprint ob = screenFingerprint (last (blank_observation # obs))
      then Suc (repeat_streak obs) else 0)"
  unfolding repeat_streak_def by (rule leading_pairs_snoc)

lemma failure_streak_snoc:
  "failure_streak (obs @ [ob]) = (if outcomeSuccess ob then 0 else Suc (failure_streak obs))"
  by (simp add: failure_streak_def)

lemma monitor_run_counters:
  "consecutive_same_screen (monitor_run cfg obs) = same_screen_streak obs
   \<and> consecutive_failures (monitor_run cfg obs) = failure_streak obs
   \<and> repeated_actions (monitor_run cfg obs) = repeat_streak obs
   \<and> last_screenshot_hash (monitor_run cfg obs)
       = screenFingerprint (last (blank_observation # obs))
   \<and> last_action (monitor_run cfg obs) = actionSignature (last (blank_observation # obs))"
proof (induction obs rule: rev_induct)
  case Nil
  show ?case
    by (simp add: monitor_run_def initial_anomaly_state_def same_screen_streak_def
        failure_streak_def repeat_streak_def blank_observation_def)
next
  case (snoc ob obs)
  have l: "last (blank_observation # obs @ [ob]) = ob" by simp
  show ?case
    unfolding monitor_run_snoc same_screen_streak_snoc repeat_streak_snoc failure_streak_snoc l
    using snoc.IH by (simp add: observe_def Let_def)
qed

text \<open>
  Claim C2. Feed the monitor the observations \<open>obs\<close> and then \<open>ob\<close>. The answer to \<open>ob\<close> is
  decided by the streaks of the whole sequence, in the fixed order: "screen not changing"
  exactly when the same-screen streak has reached its threshold; "consecutive failures"
  exactly when that is not so and the failure streak has reached its threshold; "action
  has no effect" exactly when neither is so and the repeat streak has reached its
  threshold; and no anomaly exactly when every streak is below its threshold. The default
  thresholds are 3, 2 and 3. The answer is a function of the prior state and the
  observation alone.
\<close>

theorem observe_first_rule_wins:
  "(snd (observe cfg (monitor_run cfg obs) ob) = Some (ScreenNotChanging n) \<longleftrightarrow>
      n = same_screen_streak (obs @ [ob])
      \<and> sameScreenThreshold cfg \<le> same_screen_streak (obs @ [ob]))
   \<and> (snd (observe cfg (monitor_run cfg obs) ob) = Some (ConsecutiveFailures n) \<longleftrightarrow>
      n = failure_streak (obs @ [ob])
      \<and> same_screen_streak (obs @ [ob]) < sameScreenThreshold cfg
      \<and> failureThreshold cfg \<le> failure_streak (obs @ [ob]))
   \<and> (snd (observe cfg (monitor_run cfg obs) ob) = Some (ActionHasNoEffect n a) \<longleftrightarrow>
      n = repeat_streak (obs @ [ob]) \<and> a = actionSignature ob
      \<and> same_screen_streak (obs @ [ob]) < sameScreenThreshold cfg
      \<and> failure_streak (obs @ [ob]) < failureThreshold cfg
      \<and> repeatThreshold cfg \<le> repeat_streak (obs @ [ob]))
   \<and> (snd (observe cfg (monitor_run cfg obs) ob) = None \<longleftrightarrow>
      same_screen_streak (obs @ [ob]) < sameScreenThreshold cfg
      \<and> failure_streak (obs @ [ob]) < failureThreshold cfg
      \<and> repeat_streak (obs @ [ob]) < repeatThreshold cfg)
   \<and> sameScreenThreshold default_config = 3 \<and> failureThreshold default_config = 2
   \<and> repeatThreshold default_config = 3"
proof -
  let ?st = "fst (observe cfg (monitor_run cfg obs) ob)"
  have c: "consecutive_same_screen ?st = same_screen_streak (obs @ [ob])"
    "consecutive_failures ?st = failure_streak (obs @ [ob])"
    "repeated_actions ?st = repeat_streak (obs @ [ob])"
    using monitor_run_counters [of cfg "obs @ [ob]"] by (simp_all only: monitor_run_snoc)
  have v: "snd (observe cfg (monitor_run cfg obs) ob) =
      (if sameScreenThreshold cfg \<le> consecutive_same_screen ?st
       then Some (ScreenNotChanging (consecutive_same_screen ?st))
       else if failureThreshold cfg \<le> consecutive_failures ?st
       then Some (ConsecutiveFailures (consecutive_failures ?st))
       else if repeatThreshold cfg \<le> repeated_actions ?st
       then Some (ActionHasNoEffect (repeated_actions ?st) (actionSignature ob))
       else None)"
    by (simp add: observe_def Let_def)
  show ?thesis
    unfolding v c by (auto simp add: default_config_def)
qed


section \<open>Properties of the Batched strategy\<close>

lemma budget_inv_step: "budget_inv r \<Longrightarrow> budget_inv (batched_step cfg r env)"
  by (auto simp add: budget_inv_def batched_step_def Let_def split: option.splits)

lemma budget_inv_foldl: "budget_inv r \<Longrightarrow> budget_inv (foldl (batched_step cfg) r envs)"
  by (induction envs arbitrary: r) (simp_all add: budget_inv_step)

lemma budget_inv_run: "budget_inv (batched_run cfg plan envs)"
  unfolding batched_run_def
  by (rule budget_inv_foldl) (simp add: budget_inv_def start_batched_def MAX_REPLANS_def)

lemma batched_index_bounded:
  "currentIndex r \<le> length (seq_steps (activeSequence r)) \<Longrightarrow>
   currentIndex r \<le> currentIndex (batched_step cfg r env) \<and>
   currentIndex (batched_step cfg r env)
     \<le> length (seq_steps (activeSequence (batched_step cfg r env)))"
  by (auto simp add: batched_step_def Let_def split: option.splits)

text \<open>
  Claim C3. In every Batched run the number of re-plans is at most 3: the budget starts
  at 3, never goes below zero, and is 3 minus the re-plans used; one turn uses at most one
  re-plan and takes it from the budget. When three re-plans have been used and the
  monitor reports a further anomaly for the executed step, the run ends in that turn:
  its status is the error "recovery exhausted", that error is the last event emitted, and
  no further re-plan has been made.
\<close>

theorem replans_bounded_then_fatal:
  "replansUsed (batched_run cfg plan envs) \<le> 3
   \<and> 0 \<le> replanBudget (batched_run cfg plan envs)
   \<and> replanBudget (batched_run cfg plan envs) = 3 - int (replansUsed (batched_run cfg plan envs))
   \<and> replanBudget (batched_run cfg plan []) = 3
   \<and> (replansUsed (batched_run cfg plan (envs @ [env])) = replansUsed (batched_run cfg plan envs)
      \<or> replansUsed (batched_run cfg plan (envs @ [env]))
           = replansUsed (batched_run cfg plan envs) + 1
         \<and> replanBudget (batched_run cfg plan (envs @ [env]))
           = replanBudget (batched_run cfg plan envs) - 1)
   \<and> (status (batched_run cfg plan envs) = Running
      \<and> replansUsed (batched_run cfg plan envs) = 3
      \<and> currentIndex (batched_run cfg plan envs)
          < length (seq_steps (activeSequence (batched_run cfg plan envs)))
      \<and> \<not> cancelRequested env
      \<and> snd (observe cfg (anomalyState (batched_run cfg plan envs))
              \<lparr> screenFingerprint = screenAfter env,
                actionSignature =
                  step_action (seq_steps (activeSequence (batched_run cfg plan envs))
                                 ! currentIndex (batched_run cfg plan envs))
                  @ '':'' @
                  step_target (seq_steps (activeSequence (batched_run cfg plan envs))
                                 ! currentIndex (batched_run cfg plan envs)),
                outcomeSuccess = succeeded env \<rparr>) \<noteq> None
      \<longrightarrow> status (batched_run cfg plan (envs @ [env])) = Failed ''recovery exhausted''
        \<and> last (emitted (batched_run cfg plan (envs @ [env]))) = EvError ''recovery exhausted''
        \<and> replansUsed (batched_run cfg plan (envs @ [env])) = 3
        \<and> activeSequence (batched_run cfg plan (envs @ [env]))
            = activeSequence (batched_run cfg plan envs))"
proof -
  let ?r = "batched_run cfg plan envs"
  have snoc: "batched_run cfg plan (envs @ [env]) = batched_step cfg ?r env"
    by (simp add: batched_run_def)
  have inv: "0 \<le> replanBudget ?r" "replanBudget ?r + int (replansUsed ?r) = 3"
    using budget_inv_run [of cfg plan envs] by (simp_all add: budget_inv_def MAX_REPLANS_def)
  have a: "replansUsed ?r \<le> 3" using inv by linarith
  have b: "replanBudget ?r = 3 - int (replansUsed ?r)" using inv by linarith
  have c: "replanBudget (batched_run cfg plan []) = 3"
    by (simp add: batched_run_def start_batched_def MAX_REPLANS_def)
  have d: "replansUsed (batched_step cfg ?r env) = replansUsed ?r
      \<or> replansUsed (batched_step cfg ?r env) = replansUsed ?r + 1
         \<and> replanBudget (batched_step cfg ?r env) = replanBudget ?r - 1"
    by (simp add: batched_step_def Let_def split: option.splits)
  have e: "status ?r = Running
      \<and> replansUsed ?r = 3
      \<and> currentIndex ?r < length (seq_steps (activeSequence ?r))
      \<and> \<not> cancelRequested env
      \<and> snd (observe cfg (anomalyState ?r)
              \<lparr> screenFingerprint = screenAfter env,
                actionSignature =
                  step_action (seq_steps (activeSequence ?r) ! currentIndex ?r)
                  @ '':'' @
                  step_target (seq_steps (activeSequence ?r) ! currentIndex ?r),
                outcomeSuccess = succeeded env \<rparr>) \<noteq> None
      \<longrightarrow> status (batched_step cfg ?r env) = Failed ''recovery exhausted''
        \<and> last (emitted (batched_step cfg ?r env)) = EvError ''recovery exhausted''
        \<and> replansUsed (batched_step cfg ?r env) = 3
        \<and> activeSequence (batched_step cfg ?r env) = activeSequence ?r"
  proof
    assume h: "status ?r = Running
      \<and> replansUsed ?r = 3
      \<and> currentIndex ?r < length (seq_steps (activeSequence ?r))
      \<and> \<not> cancelRequested env
      \<and> snd (observe cfg (anomalyState ?r)
              \<lparr> screenFingerprint = screenAfter env,
                actionSignature =
                  step_action (seq_steps (activeSequence ?r) ! currentIndex ?r)
                  @ '':'' @
                  step_target (seq_steps (activeSequence ?r) ! currentIndex ?r),
                outcomeSuccess = succeeded env \<rparr>) \<noteq> None"
    then have z: "replanBudget ?r = 0" using inv by simp
    from h z show "status (batched_step cfg ?r env) = Failed ''recovery exhausted''
        \<and> last (emitted (batched_step cfg ?r env)) = EvError ''recovery exhausted''
        \<and> replansUsed (batched_step cfg ?r env) = 3
        \<and> activeSequence (batched_step cfg ?r env) = activeSequence ?r"
      by (auto simp add: batched_step_def Let_def)
  qed
  show ?thesis unfolding snoc using a inv(1) b c d e by blast
qed

lemma sample_run_exhausts_budget:
  "status (batched_run default_config sample_plan (replicate 4 failing_env)) = Running
   \<and> replansUsed (batched_run default_config sample_plan (replicate 4 failing_env)) = 3
   \<and> currentIndex (batched_run default_config sample_plan (replicate 4 failing_env))
       < length (seq_steps (activeSequence
                   (batched_run default_config sample_plan (replicate 4 failing_env))))
   \<and> \<not> cancelRequested failing_env
   \<and> snd (observe default_config
            (anomalyState (batched_run default_config sample_plan (replicate 4 failing_env)))
              \<lparr> screenFingerprint = screenAfter failing_env,
                actionSignature =
                  step_action (seq_steps (activeSequence
                      (batched_run default_config sample_plan (replicate 4 failing_env)))
                    ! currentIndex (batched_run default_config sample_plan (replicate 4 failing_env)))
                  @ '':'' @
                  step_target (seq_steps (activeSequence
                      (batched_run default_config sample_plan (replicate 4 failing_env)))
                    ! currentIndex (batched_run default_config sample_plan (replicate 4 failing_env))),
                outcomeSuccess = succeeded failing_env \<rparr>) \<noteq> None"
  by code_simp

theorem replans_bounded_then_fatal_witness:
  "replansUsed (batched_run default_config sample_plan (replicate 4 failing_env)) = 3
   \<and> status (batched_run default_config sample_plan (replicate 4 failing_env)) = Running
   \<and> status (batched_run default_config sample_plan (replicate 4 failing_env @ [failing_env]))
       = Failed ''recovery exhausted''
   \<and> last (emitted (batched_run default_config sample_plan
                      (replicate 4 failing_env @ [failing_env])))
       = EvError ''recovery exhausted''
   \<and> replansUsed (batched_run default_config sample_plan
                    (replicate 4 failing_env @ [failing_env])) = 3"
  using sample_run_exhausts_budget
    replans_bounded_then_fatal [of default_config sample_plan "replicate 4 failing_env" failing_env]
  by blast

end
